theory Spec2Isabelle
  imports Main "HOL-Library.Sublist" "HOL-Library.Log_Nat"
begin

section \<open>The speech-generation pipeline of \<^verbatim>\<open>app/tts_handler.py\<close>\<close>

text \<open>
  Python strings are modelled as \<^typ>\<open>string\<close>, read as the UTF-8 bytes of the text.
  The only string tests of the source (\<^verbatim>\<open>startswith("en-")\<close>, \<^verbatim>\<open>"Multilingual" in v\<close>,
  equality) have ASCII patterns, so they give the same answer on bytes as on code points.
\<close>

subsection \<open>Errors\<close>

text \<open>
  Every exception that leaves a function of the module is a value:
  \<^item> \<open>ValueError\<close>: raised by \<^verbatim>\<open>speed_to_rate\<close>;
  \<^item> \<open>SynthesisError\<close>: whatever \<^verbatim>\<open>edge_tts.Communicate(...)\<close> or its \<^verbatim>\<open>save\<close> raises;
  \<^item> \<open>RuntimeError\<close>: raised by \<^verbatim>\<open>_generate_audio\<close> when the encoder exits non-zero;
  \<^item> \<open>FileExistsError\<close>: raised by \<^verbatim>\<open>tempfile\<close> when no candidate name is free.
\<close>

datatype error =
    ValueError string
  | SynthesisError string
  | RuntimeError string
  | FileExistsError

subsection \<open>Static tables\<close>

definition voice_mapping :: "(string \<times> string) list" where
  "voice_mapping =
    [(''alloy'', ''en-US-AvaNeural''),
     (''echo'', ''en-US-AndrewNeural''),
     (''fable'', ''en-GB-SoniaNeural''),
     (''onyx'', ''en-US-EricNeural''),
     (''nova'', ''en-US-SteffanNeural''),
     (''shimmer'', ''en-US-EmmaNeural'')]"

definition MULTILINGUAL_VOICE :: string where
  "MULTILINGUAL_VOICE = ''en-US-AndrewMultilingualNeural''"

definition LANGUAGE_VOICE_OVERRIDES :: "(string \<times> string) list" where
  "LANGUAGE_VOICE_OVERRIDES = [(''ru'', ''ru-RU-DmitryNeural'')]"

text \<open>\<^verbatim>\<open>d.get(k, default)\<close> on a dictionary given as an association list.\<close>

definition dict_get :: "(string \<times> string) list \<Rightarrow> string \<Rightarrow> string \<Rightarrow> string" where
  "dict_get d k dflt = (case map_of d k of None \<Rightarrow> dflt | Some v \<Rightarrow> v)"

text \<open>\<^verbatim>\<open>sub in s\<close> on strings: \<open>sub\<close> occurs in \<open>s\<close> as a contiguous block.\<close>

fun py_in :: "string \<Rightarrow> string \<Rightarrow> bool" where
  "py_in sub [] = (sub = [])"
| "py_in sub (c # cs) = (if prefix sub (c # cs) then True else py_in sub cs)"

subsection \<open>The outside world\<close>

text \<open>
  A \<^verbatim>\<open>subprocess.CalledProcessError\<close> as the handler of \<^verbatim>\<open>_generate_audio\<close> reads it:
  \<open>exc_str\<close> is \<^verbatim>\<open>str(e)\<close> (the standard library's
  \<^verbatim>\<open>Command '[...]' returned non-zero exit status N.\<close>), \<open>exc_stderr\<close> is
  \<^verbatim>\<open>e.stderr.decode('utf-8', 'ignore')\<close>. \<^verbatim>\<open>e.cmd\<close> is the command that was run.
\<close>

record called_process_error =
  exc_str :: string
  exc_stderr :: string

text \<open>The three outcomes of \<^verbatim>\<open>subprocess.run(['ffmpeg', '-version'], check=True, ...)\<close>.\<close>

datatype probe = Probe_ok | Probe_called_process_error | Probe_file_not_found

text \<open>
  What one request sees of its collaborators:
  \<^item> \<open>detect\<close>: \<^verbatim>\<open>langdetect.detect\<close>; \<open>None\<close> is \<^verbatim>\<open>LangDetectException\<close>;
  \<^item> \<open>communicate_save\<close>: \<^verbatim>\<open>edge_tts.Communicate(text, voice, rate)\<close> followed by
    \<^verbatim>\<open>save\<close>, as a function of text, voice and rate; \<open>Some msg\<close> is an exception;
  \<^item> \<open>ffmpeg_version\<close>: the probe run by \<^verbatim>\<open>is_ffmpeg_installed\<close>;
  \<^item> \<open>subprocess_run\<close>: the conversion run of the encoder on a command line; \<open>Some e\<close>
    is \<^verbatim>\<open>CalledProcessError\<close> (non-zero exit), \<open>None\<close> is exit status 0 (an encoder
    that the probe found and that cannot be started a moment later is not modelled);
  \<^item> \<open>DETAILED_ERROR_LOGGING\<close>: the flag imported from \<^verbatim>\<open>utils\<close>.
\<close>

record env =
  detect :: "string \<Rightarrow> string option"
  communicate_save :: "string \<Rightarrow> string \<Rightarrow> string \<Rightarrow> string option"
  ffmpeg_version :: probe
  subprocess_run :: "string list \<Rightarrow> called_process_error option"
  DETAILED_ERROR_LOGGING :: bool

text \<open>The calls made to the synthesis service and to the encoder, in order.\<close>

datatype call =
    Communicate_save string string string string
  | Subprocess_run "string list"

text \<open>
  The disk and the random name sequence of \<^verbatim>\<open>tempfile\<close>: \<open>files\<close> are the paths that
  exist, \<open>names\<close> the candidate names still to come, \<open>trace\<close> the calls made so far.
\<close>

record world =
  files :: "string set"
  names :: "string list"
  trace :: "call list"

definition tmp_path :: "string \<Rightarrow> string \<Rightarrow> string" where
  "tmp_path name sfx = ''/tmp/tmp'' @ name @ sfx"

text \<open>
  \<^verbatim>\<open>tempfile.NamedTemporaryFile(delete=False, suffix=suffix)\<close>: candidate names are
  tried in turn, the file is created exclusively under the first name that does not
  exist, and \<^verbatim>\<open>FileExistsError\<close> is raised when the candidates run out. The temporary
  directory is taken to be \<^verbatim>\<open>/tmp\<close>, the prefix is the library's \<^verbatim>\<open>tmp\<close>.
\<close>

definition named_temporary_file :: "string \<Rightarrow> world \<Rightarrow> error + (string \<times> world)" where
  "named_temporary_file sfx w =
    (case dropWhile (\<lambda>n. tmp_path n sfx \<in> files w) (names w) of
       [] \<Rightarrow> Inl FileExistsError
     | n # ns \<Rightarrow>
         Inr (tmp_path n sfx,
              w\<lparr>files := insert (tmp_path n sfx) (files w), names := ns\<rparr>))"

text \<open>\<^verbatim>\<open>Path(p).unlink(missing_ok=True)\<close>.\<close>

definition unlink :: "string \<Rightarrow> world \<Rightarrow> world" where
  "unlink p w = w\<lparr>files := files w - {p}\<rparr>"

definition record_call :: "call \<Rightarrow> world \<Rightarrow> world" where
  "record_call c w = w\<lparr>trace := trace w @ [c]\<rparr>"

definition is_ffmpeg_installed :: "env \<Rightarrow> bool" where
  "is_ffmpeg_installed e =
    (case ffmpeg_version e of
       Probe_ok \<Rightarrow> True
     | Probe_called_process_error \<Rightarrow> False
     | Probe_file_not_found \<Rightarrow> False)"

subsection \<open>Voice resolution (\<^verbatim>\<open>generate_speech\<close>, lines 109 to 122)\<close>

definition detected_lang :: "env \<Rightarrow> string \<Rightarrow> string" where
  "detected_lang e text = (case detect e text of None \<Rightarrow> ''en'' | Some l \<Rightarrow> l)"

definition mapped_voice :: "string \<Rightarrow> string" where
  "mapped_voice voice = dict_get voice_mapping voice voice"

definition resolve_voice :: "env \<Rightarrow> string \<Rightarrow> string \<Rightarrow> string" where
  "resolve_voice e voice text =
    (let lang = detected_lang e text; v = mapped_voice voice in
     if prefix ''en-'' v \<and> \<not> py_in ''Multilingual'' v then
       (case map_of LANGUAGE_VOICE_OVERRIDES lang of
          Some override \<Rightarrow> override
        | None \<Rightarrow> if lang \<noteq> ''en'' then MULTILINGUAL_VOICE else v)
     else v)"

subsection \<open>Floating-point speeds and \<^verbatim>\<open>speed_to_rate\<close>\<close>

text \<open>
  A Python \<^verbatim>\<open>float\<close>: a finite value (a rational), an infinity, or a NaN. The sign of
  zero is not kept: \<^verbatim>\<open>speed_to_rate\<close> never produces a negative zero, and treats the
  input \<^verbatim>\<open>-0.0\<close> as \<^verbatim>\<open>0.0\<close>.
\<close>

datatype pyfloat = Finite rat | PosInf | NegInf | NaN

text \<open>The integer nearest to \<open>x\<close>, a tie going to the even neighbour.\<close>

definition round_half_even :: "rat \<Rightarrow> int" where
  "round_half_even x =
    (let f = \<lfloor>x\<rfloor>; d = x - of_int f in
     if d < 1 / 2 then f
     else if 1 / 2 < d then f + 1
     else if even f then f else f + 1)"

text \<open>For \<open>0 < x\<close>, the exponent \<open>e\<close> with \<open>2 powi e \<le> x < 2 powi (e + 1)\<close>.\<close>

definition floor_log2 :: "rat \<Rightarrow> int" where
  "floor_log2 x =
    (let k = bitlen (fst (quotient_of x)) - bitlen (snd (quotient_of x))
     in if 2 powi k \<le> x then k else k - 1)"

text \<open>
  The result of one arithmetic operation in double precision: the exact result \<open>x\<close>
  rounded to a significand of 53 bits, ties to even. The exponent range is not
  modelled; \<^verbatim>\<open>speed_to_rate\<close> calls it on magnitudes between \<open>2 powi (-53)\<close> and
  \<open>100\<close> only, where no result overflows or is subnormal.
\<close>

definition binary64 :: "rat \<Rightarrow> rat" where
  "binary64 x =
    (if x = 0 then 0
     else of_int (round_half_even (x / 2 powi (floor_log2 \<bar>x\<bar> - 52)))
            * 2 powi (floor_log2 \<bar>x\<bar> - 52))"

definition digit_char :: "nat \<Rightarrow> char" where
  "digit_char d = ''0123456789'' ! d"

text \<open>The decimal digits of a natural number, as \<^verbatim>\<open>str(n)\<close>.\<close>

fun digits10 :: "nat \<Rightarrow> string" where
  "digits10 n = (if n < 10 then [digit_char n] else digits10 (n div 10) @ [digit_char (n mod 10)])"

text \<open>
  \<^verbatim>\<open>f"{x:+.0f}"\<close> on a finite \<open>x\<close>: the sign of \<open>x\<close> itself, then the magnitude
  rounded to an integer (correctly, ties to even).
\<close>

definition format_plus_0f :: "rat \<Rightarrow> string" where
  "format_plus_0f x =
    (if x < 0 then ''-'' else ''+'') @ digits10 (nat (round_half_even \<bar>x\<bar>))"

text \<open>\<^verbatim>\<open>(speed - 1) * 100\<close> on a finite speed: two rounded operations.\<close>

definition percentage_change :: "rat \<Rightarrow> rat" where
  "percentage_change s = binary64 (binary64 (s - 1) * 100)"

text \<open>
  \<^verbatim>\<open>speed_to_rate\<close>. On the infinities one of the comparisons holds. On a NaN both
  \<^verbatim>\<open>speed < 0\<close> and \<^verbatim>\<open>speed > 2\<close> are false, the arithmetic gives a NaN again, and the
  format prints it as \<^verbatim>\<open>+nan\<close>.
\<close>

fun speed_to_rate :: "pyfloat \<Rightarrow> error + string" where
  "speed_to_rate (Finite s) =
    (if s < 0 \<or> 2 < s then Inl (ValueError ''Speed must be between 0 and 2 (inclusive).'')
     else Inr (format_plus_0f (percentage_change s) @ ''%''))"
| "speed_to_rate PosInf = Inl (ValueError ''Speed must be between 0 and 2 (inclusive).'')"
| "speed_to_rate NegInf = Inl (ValueError ''Speed must be between 0 and 2 (inclusive).'')"
| "speed_to_rate NaN = Inr ''+nan%''"

subsection \<open>\<^verbatim>\<open>_generate_audio\<close>\<close>

text \<open>Lines 45 to 49: the rate string, or the default when \<^verbatim>\<open>speed_to_rate\<close> raises.\<close>

definition speed_rate :: "pyfloat \<Rightarrow> string" where
  "speed_rate speed = (case speed_to_rate speed of Inl e \<Rightarrow> ''+0%'' | Inr r \<Rightarrow> r)"

definition codec_table :: "(string \<times> string) list" where
  "codec_table =
    [(''aac'', ''aac''), (''mp3'', ''libmp3lame''), (''wav'', ''pcm_s16le''),
     (''opus'', ''libopus''), (''flac'', ''flac'')]"

definition container_table :: "(string \<times> string) list" where
  "container_table =
    [(''aac'', ''mp4''), (''mp3'', ''mp3''), (''wav'', ''wav''),
     (''opus'', ''ogg''), (''flac'', ''flac'')]"

text \<open>Lines 66 to 89: the command line of the encoder.\<close>

definition ffmpeg_command :: "string \<Rightarrow> string \<Rightarrow> string \<Rightarrow> string list" where
  "ffmpeg_command temp_mp3_path response_format converted_path =
    [''ffmpeg'', ''-i'', temp_mp3_path,
     ''-c:a'', dict_get codec_table response_format ''aac'']
    @ (if response_format \<noteq> ''wav'' then [''-b:a'', ''192k''] else [])
    @ [''-f'', dict_get container_table response_format response_format,
       ''-y'', converted_path]"

text \<open>\<^verbatim>\<open>' '.join(xs)\<close>.\<close>

fun join_space :: "string list \<Rightarrow> string" where
  "join_space [] = []"
| "join_space [x] = x"
| "join_space (x # y # ys) = x @ '' '' @ join_space (y # ys)"

text \<open>Lines 97 to 101: the message of the \<^verbatim>\<open>RuntimeError\<close>.\<close>

definition error_message :: "env \<Rightarrow> string list \<Rightarrow> called_process_error \<Rightarrow> string" where
  "error_message e cmd exc =
    (if DETAILED_ERROR_LOGGING e
     then ''FFmpeg error during audio conversion. Command: '' @ [CHR 0x27] @ join_space cmd
          @ [CHR 0x27] @ ''. Stderr: '' @ exc_stderr exc
     else ''FFmpeg error during audio conversion: '' @ exc_str exc)"

text \<open>
  Lines 55 to 106, the part of \<^verbatim>\<open>_generate_audio\<close> that runs once the native file is
  written. It returns the outcome together with the world it leaves behind.
\<close>

definition generate_audio_convert ::
    "env \<Rightarrow> string \<Rightarrow> string \<Rightarrow> world \<Rightarrow> (error + string) \<times> world" where
  "generate_audio_convert e temp_mp3_path response_format w =
    (if response_format = ''mp3'' then (Inr temp_mp3_path, w)
     else if \<not> is_ffmpeg_installed e then (Inr temp_mp3_path, w)
     else
       (case named_temporary_file (''.'' @ response_format) w of
          Inl err \<Rightarrow> (Inl err, w)
        | Inr (converted_path, w1) \<Rightarrow>
            (let cmd = ffmpeg_command temp_mp3_path response_format converted_path;
                 w2 = record_call (Subprocess_run cmd) w1 in
             case subprocess_run e cmd of
               Some exc \<Rightarrow>
                 (Inl (RuntimeError (error_message e cmd exc)),
                  unlink temp_mp3_path (unlink converted_path w2))
             | None \<Rightarrow> (Inr converted_path, unlink temp_mp3_path w2))))"

text \<open>
  \<^verbatim>\<open>_generate_audio\<close> (the leading underscore is dropped). An exception of the
  synthesis call leaves the function at line 51 or 52, with the world as it is then.
\<close>

definition generate_audio ::
    "env \<Rightarrow> string \<Rightarrow> string \<Rightarrow> string \<Rightarrow> pyfloat \<Rightarrow> world \<Rightarrow> (error + string) \<times> world" where
  "generate_audio e text voice response_format speed w =
    (case named_temporary_file ''.mp3'' w of
       Inl err \<Rightarrow> (Inl err, w)
     | Inr (temp_mp3_path, w1) \<Rightarrow>
         (let w2 = record_call (Communicate_save text voice (speed_rate speed) temp_mp3_path) w1 in
          case communicate_save e text voice (speed_rate speed) of
            Some msg \<Rightarrow> (Inl (SynthesisError msg), w2)
          | None \<Rightarrow> generate_audio_convert e temp_mp3_path response_format w2))"

definition generate_speech ::
    "env \<Rightarrow> string \<Rightarrow> string \<Rightarrow> string \<Rightarrow> pyfloat \<Rightarrow> world \<Rightarrow> (error + string) \<times> world" where
  "generate_speech e text voice response_format speed w =
    generate_audio e text (resolve_voice e voice text) response_format speed w"

subsection \<open>The rate string as the specification words it\<close>



subsection \<open>The encoder arguments as the specification tabulates them\<close>





subsection \<open>Example environments\<close>

text \<open>
  An environment whose collaborators answer the same on every call: the detected
  language, the outcome of the synthesis call, the probe, the outcome of the encoder and
  the logging flag.
\<close>

definition example_env ::
    "string option \<Rightarrow> string option \<Rightarrow> probe \<Rightarrow> called_process_error option \<Rightarrow> bool \<Rightarrow> env" where
  "example_env lang synth pr enc d =
    \<lparr>detect = (\<lambda>t. lang), communicate_save = (\<lambda>t v r. synth), ffmpeg_version = pr,
     subprocess_run = (\<lambda>c. enc), DETAILED_ERROR_LOGGING = d\<rparr>"

text \<open>An empty disk with two candidate names to come.\<close>

definition example_world :: world where
  "example_world = \<lparr>files = {}, names = [''a1b2c3d4'', ''e5f6g7h8''], trace = []\<rparr>"

text \<open>
  A failed run of the encoder on a \<^verbatim>\<open>wav\<close> conversion: \<^verbatim>\<open>str(e)\<close> as the standard library
  prints it, and the diagnostic the encoder wrote to its error stream.
\<close>

definition example_exc :: called_process_error where
  "example_exc =
    \<lparr>exc_str = ''Command '['ffmpeg', '-i', '/tmp/tmpa1b2c3d4.mp3', '-c:a', 'pcm_s16le', '-f', 'wav', '-y', '/tmp/tmpe5f6g7h8.wav']' returned non-zero exit status 1.'',
     exc_stderr = ''/tmp/tmpa1b2c3d4.mp3: Invalid data found when processing input''\<rparr>"

section \<open>Voice resolution\<close>

lemma mapped_voice_cases:
  "mapped_voice voice = voice \<or>
   mapped_voice voice \<in> {''en-US-AvaNeural'', ''en-US-AndrewNeural'', ''en-GB-SoniaNeural'',
     ''en-US-EricNeural'', ''en-US-SteffanNeural'', ''en-US-EmmaNeural''}"
  by (simp add: mapped_voice_def dict_get_def voice_mapping_def)

lemma mapped_voice_absent: "map_of voice_mapping voice = None \<Longrightarrow> mapped_voice voice = voice"
  by (simp add: mapped_voice_def dict_get_def)

lemma multilingual_voice_exempt: "py_in ''Multilingual'' MULTILINGUAL_VOICE"
  by (simp add: MULTILINGUAL_VOICE_def)

lemma alias_keys:
  "map_of voice_mapping voice = Some v \<Longrightarrow>
   voice \<in> {''alloy'', ''echo'', ''fable'', ''onyx'', ''nova'', ''shimmer''}"
  by (simp add: voice_mapping_def split: if_splits)

text \<open>No alias begins with the English prefix, and none contains \<^verbatim>\<open>Multilingual\<close>.\<close>

lemma mapped_voice_en: "prefix ''en-'' voice \<Longrightarrow> mapped_voice voice = voice"
proof (cases "map_of voice_mapping voice")
  case None
  then show ?thesis by (simp add: mapped_voice_def dict_get_def)
next
  case (Some v)
  assume p: "prefix ''en-'' voice"
  from alias_keys [OF Some] have "\<not> prefix ''en-'' voice"
    by (elim insertE emptyE) simp_all
  with p show ?thesis by simp
qed

lemma alias_not_multilingual:
  "map_of voice_mapping voice = Some v \<Longrightarrow> \<not> py_in ''Multilingual'' voice"
proof -
  assume "map_of voice_mapping voice = Some v"
  from alias_keys [OF this] show ?thesis
    by (elim insertE emptyE) simp_all
qed

lemma mapped_voice_multilingual: "py_in ''Multilingual'' voice \<Longrightarrow> mapped_voice voice = voice"
proof (cases "map_of voice_mapping voice")
  case None
  then show ?thesis by (rule mapped_voice_absent)
next
  case (Some v)
  assume "py_in ''Multilingual'' voice"
  with alias_not_multilingual [OF Some] show ?thesis by simp
qed

text \<open>Every alias maps to an English voice, so mapping twice is mapping once.\<close>

lemma mapped_voice_idem: "mapped_voice (mapped_voice voice) = mapped_voice voice"
proof -
  from mapped_voice_cases [of voice] consider "mapped_voice voice = voice"
    | "prefix ''en-'' (mapped_voice voice)"
    by auto
  then show ?thesis
  proof cases
    case 1
    then show ?thesis by simp
  next
    case 2
    then show ?thesis by (rule mapped_voice_en)
  qed
qed

lemma resolve_voice_unfold:
  "resolve_voice e voice text =
    (if prefix ''en-'' (mapped_voice voice) \<and> \<not> py_in ''Multilingual'' (mapped_voice voice) then
       (case map_of LANGUAGE_VOICE_OVERRIDES (detected_lang e text) of
          Some override \<Rightarrow> override
        | None \<Rightarrow> if detected_lang e text \<noteq> ''en'' then MULTILINGUAL_VOICE
                  else mapped_voice voice)
     else mapped_voice voice)"
  by (simp only: resolve_voice_def Let_def)

lemma mapped_voice_alloy: "mapped_voice ''alloy'' = ''en-US-AvaNeural''"
  by (simp add: mapped_voice_def dict_get_def voice_mapping_def)

lemma resolve_voice_alloy:
  "resolve_voice e ''alloy'' text =
     (case map_of LANGUAGE_VOICE_OVERRIDES (detected_lang e text) of
          Some override \<Rightarrow> override
        | None \<Rightarrow> if detected_lang e text \<noteq> ''en'' then MULTILINGUAL_VOICE
                  else ''en-US-AvaNeural'')"
  by (simp add: resolve_voice_unfold mapped_voice_alloy split: option.split)

lemma overrides_ru: "map_of LANGUAGE_VOICE_OVERRIDES ''ru'' = Some ''ru-RU-DmitryNeural''"
  by (simp add: LANGUAGE_VOICE_OVERRIDES_def)

lemma overrides_fr: "map_of LANGUAGE_VOICE_OVERRIDES ''fr'' = None"
  by (simp add: LANGUAGE_VOICE_OVERRIDES_def)

text \<open>
  Claim C9. A selector that is absent from \<^verbatim>\<open>voice_mapping\<close> is itself the voice of
  step 1; and when the voice of step 1 does not begin with \<^verbatim>\<open>en-\<close>, or is the
  multilingual voice, the resolved voice is the voice of step 1, whatever the text and
  whatever language is detected in it.
\<close>

theorem resolve_voice_keeps:
  "(map_of voice_mapping voice = None \<longrightarrow> mapped_voice voice = voice)
   \<and> (\<not> prefix ''en-'' (mapped_voice voice) \<or> mapped_voice voice = MULTILINGUAL_VOICE
        \<longrightarrow> resolve_voice e voice text = mapped_voice voice)"
proof (intro conjI impI)
  assume "map_of voice_mapping voice = None"
  then show "mapped_voice voice = voice" by (rule mapped_voice_absent)
next
  assume a: "\<not> prefix ''en-'' (mapped_voice voice) \<or> mapped_voice voice = MULTILINGUAL_VOICE"
  have "\<not> (prefix ''en-'' (mapped_voice voice) \<and> \<not> py_in ''Multilingual'' (mapped_voice voice))"
  proof (rule disjE [OF a])
    assume "\<not> prefix ''en-'' (mapped_voice voice)"
    then show ?thesis by blast
  next
    assume "mapped_voice voice = MULTILINGUAL_VOICE"
    then have "py_in ''Multilingual'' (mapped_voice voice)"
      by (simp only: multilingual_voice_exempt)
    then show ?thesis by blast
  qed
  then show "resolve_voice e voice text = mapped_voice voice"
    by (simp only: resolve_voice_unfold if_False)
qed

text \<open>
  Claim C2, amended. When the voice of step 1 begins with \<^verbatim>\<open>en-\<close> and does not contain
  \<^verbatim>\<open>Multilingual\<close>: if the detected language has an entry in the override table, the
  resolved voice is that entry; otherwise, if the detected language is not \<^verbatim>\<open>en\<close>, it
  is the multilingual voice. For the alias \<^verbatim>\<open>alloy\<close>, a text detected as Russian gives
  the Russian override and a text detected as French gives the multilingual voice.
\<close>

theorem resolve_voice_override:
  "(prefix ''en-'' (mapped_voice voice) \<and> \<not> py_in ''Multilingual'' (mapped_voice voice) \<longrightarrow>
      (\<forall>ov. map_of LANGUAGE_VOICE_OVERRIDES (detected_lang e text) = Some ov
            \<longrightarrow> resolve_voice e voice text = ov)
      \<and> (map_of LANGUAGE_VOICE_OVERRIDES (detected_lang e text) = None
           \<and> detected_lang e text \<noteq> ''en''
            \<longrightarrow> resolve_voice e voice text = MULTILINGUAL_VOICE))
   \<and> (detect e text = Some ''ru'' \<longrightarrow> resolve_voice e ''alloy'' text = ''ru-RU-DmitryNeural'')
   \<and> (detect e text = Some ''fr'' \<longrightarrow> resolve_voice e ''alloy'' text = MULTILINGUAL_VOICE)"
proof (intro conjI impI allI)
  fix ov
  assume "prefix ''en-'' (mapped_voice voice) \<and> \<not> py_in ''Multilingual'' (mapped_voice voice)"
    and "map_of LANGUAGE_VOICE_OVERRIDES (detected_lang e text) = Some ov"
  then show "resolve_voice e voice text = ov"
    by (simp add: resolve_voice_unfold)
next
  assume "prefix ''en-'' (mapped_voice voice) \<and> \<not> py_in ''Multilingual'' (mapped_voice voice)"
    and "map_of LANGUAGE_VOICE_OVERRIDES (detected_lang e text) = None
           \<and> detected_lang e text \<noteq> ''en''"
  then show "resolve_voice e voice text = MULTILINGUAL_VOICE"
    by (simp add: resolve_voice_unfold)
next
  assume "detect e text = Some ''ru''"
  then have "detected_lang e text = ''ru''" by (simp add: detected_lang_def)
  then show "resolve_voice e ''alloy'' text = ''ru-RU-DmitryNeural''"
    by (simp add: resolve_voice_alloy overrides_ru)
next
  assume "detect e text = Some ''fr''"
  then have "detected_lang e text = ''fr''" by (simp add: detected_lang_def)
  then show "resolve_voice e ''alloy'' text = MULTILINGUAL_VOICE"
    by (simp add: resolve_voice_alloy overrides_fr)
qed

text \<open>
  Claim C6, amended. Resolving an alias gives what resolving its voice directly gives.
  Every voice that begins with \<^verbatim>\<open>en-\<close> and does not contain \<^verbatim>\<open>Multilingual\<close> is
  subject to the override rule when passed directly; every voice that contains
  \<^verbatim>\<open>Multilingual\<close>, and not the multilingual voice alone, is exempt.
\<close>

theorem resolve_voice_any_source:
  "resolve_voice e voice text = resolve_voice e (mapped_voice voice) text
   \<and> (prefix ''en-'' voice \<and> \<not> py_in ''Multilingual'' voice \<longrightarrow>
        resolve_voice e voice text =
          (case map_of LANGUAGE_VOICE_OVERRIDES (detected_lang e text) of
             Some ov \<Rightarrow> ov
           | None \<Rightarrow> if detected_lang e text \<noteq> ''en'' then MULTILINGUAL_VOICE else voice))
   \<and> (py_in ''Multilingual'' voice \<longrightarrow> resolve_voice e voice text = voice)"
proof (intro conjI impI)
  show "resolve_voice e voice text = resolve_voice e (mapped_voice voice) text"
    by (simp only: resolve_voice_unfold mapped_voice_idem)
next
  assume a: "prefix ''en-'' voice \<and> \<not> py_in ''Multilingual'' voice"
  then have "mapped_voice voice = voice" by (simp add: mapped_voice_en)
  with a show "resolve_voice e voice text =
          (case map_of LANGUAGE_VOICE_OVERRIDES (detected_lang e text) of
             Some ov \<Rightarrow> ov
           | None \<Rightarrow> if detected_lang e text \<noteq> ''en'' then MULTILINGUAL_VOICE else voice)"
    by (simp add: resolve_voice_unfold split: option.split)
next
  assume a: "py_in ''Multilingual'' voice"
  then have "mapped_voice voice = voice" by (rule mapped_voice_multilingual)
  with a show "resolve_voice e voice text = voice"
    by (simp add: resolve_voice_unfold)
qed


lemma detected_lang_example:
  "detected_lang (example_env (Some l) synth pr enc d) text = l"
  by (simp add: detected_lang_def example_env_def)

text \<open>
  A German voice and the multilingual voice, both with a text detected as French.
\<close>

theorem resolve_voice_keeps_witness:
  "map_of voice_mapping ''de-DE-KatjaNeural'' = None
   \<and> mapped_voice ''de-DE-KatjaNeural'' = ''de-DE-KatjaNeural''
   \<and> \<not> prefix ''en-'' (mapped_voice ''de-DE-KatjaNeural'')
   \<and> resolve_voice (example_env (Some ''fr'') None Probe_ok None False)
        ''de-DE-KatjaNeural'' ''Bonjour le monde'' = ''de-DE-KatjaNeural''
   \<and> mapped_voice MULTILINGUAL_VOICE = MULTILINGUAL_VOICE
   \<and> resolve_voice (example_env (Some ''fr'') None Probe_ok None False)
        MULTILINGUAL_VOICE ''Bonjour le monde'' = MULTILINGUAL_VOICE"
proof -
  have a: "map_of voice_mapping ''de-DE-KatjaNeural'' = None"
    by (simp add: voice_mapping_def)
  have b: "mapped_voice MULTILINGUAL_VOICE = MULTILINGUAL_VOICE"
    by (simp add: mapped_voice_multilingual multilingual_voice_exempt)
  have c: "\<not> prefix ''en-'' ''de-DE-KatjaNeural''"
    by simp
  from a b c
    resolve_voice_keeps [of "''de-DE-KatjaNeural''"
      "example_env (Some ''fr'') None Probe_ok None False" "''Bonjour le monde''"]
    resolve_voice_keeps [of MULTILINGUAL_VOICE
      "example_env (Some ''fr'') None Probe_ok None False" "''Bonjour le monde''"]
  show ?thesis by simp
qed

text \<open>
  The alias \<^verbatim>\<open>fable\<close> and the alias \<^verbatim>\<open>alloy\<close>, with a text detected as Russian and a
  text detected as French.
\<close>

theorem resolve_voice_override_witness:
  "prefix ''en-'' (mapped_voice ''fable'') \<and> \<not> py_in ''Multilingual'' (mapped_voice ''fable'')
   \<and> map_of LANGUAGE_VOICE_OVERRIDES
        (detected_lang (example_env (Some ''ru'') None Probe_ok None False) ''Privet, mir'')
      = Some ''ru-RU-DmitryNeural''
   \<and> resolve_voice (example_env (Some ''ru'') None Probe_ok None False) ''fable'' ''Privet, mir''
      = ''ru-RU-DmitryNeural''
   \<and> map_of LANGUAGE_VOICE_OVERRIDES
        (detected_lang (example_env (Some ''fr'') None Probe_ok None False) ''Bonjour le monde'')
      = None
   \<and> detected_lang (example_env (Some ''fr'') None Probe_ok None False) ''Bonjour le monde'' \<noteq> ''en''
   \<and> resolve_voice (example_env (Some ''fr'') None Probe_ok None False) ''fable'' ''Bonjour le monde''
      = MULTILINGUAL_VOICE
   \<and> detect (example_env (Some ''ru'') None Probe_ok None False) ''Privet, mir'' = Some ''ru''
   \<and> resolve_voice (example_env (Some ''ru'') None Probe_ok None False) ''alloy'' ''Privet, mir''
      = ''ru-RU-DmitryNeural''
   \<and> detect (example_env (Some ''fr'') None Probe_ok None False) ''Bonjour le monde'' = Some ''fr''
   \<and> resolve_voice (example_env (Some ''fr'') None Probe_ok None False) ''alloy'' ''Bonjour le monde''
      = MULTILINGUAL_VOICE"
proof -
  have a: "mapped_voice ''fable'' = ''en-GB-SoniaNeural''"
    by (simp add: mapped_voice_def dict_get_def voice_mapping_def)
  have b: "prefix ''en-'' ''en-GB-SoniaNeural''" "\<not> py_in ''Multilingual'' ''en-GB-SoniaNeural''"
    by simp_all
  have c: "detect (example_env (Some l) None Probe_ok None False) t = Some l" for l t
    by (simp add: example_env_def)
  from a b c overrides_ru overrides_fr
    resolve_voice_override [of "''fable''" "example_env (Some ''ru'') None Probe_ok None False"
      "''Privet, mir''"]
    resolve_voice_override [of "''fable''" "example_env (Some ''fr'') None Probe_ok None False"
      "''Bonjour le monde''"]
  show ?thesis by (simp add: detected_lang_example)
qed

text \<open>
  Claim C2 as stated fails: \<^verbatim>\<open>en-US-AvaMultilingualNeural\<close> begins with \<^verbatim>\<open>en-\<close> and is
  not the multilingual voice \<^verbatim>\<open>en-US-AndrewMultilingualNeural\<close>, the detected language
  has an override, and yet the voice is not replaced by the override: the test of line
  116 is \<^verbatim>\<open>"Multilingual" not in mapped_voice\<close>.
\<close>

theorem resolve_voice_multilingual_counterexample:
  "prefix ''en-'' (mapped_voice ''en-US-AvaMultilingualNeural'')
   \<and> mapped_voice ''en-US-AvaMultilingualNeural'' \<noteq> MULTILINGUAL_VOICE
   \<and> map_of LANGUAGE_VOICE_OVERRIDES
        (detected_lang (example_env (Some ''ru'') None Probe_ok None False) ''Privet, mir'')
      = Some ''ru-RU-DmitryNeural''
   \<and> resolve_voice (example_env (Some ''ru'') None Probe_ok None False)
        ''en-US-AvaMultilingualNeural'' ''Privet, mir'' \<noteq> ''ru-RU-DmitryNeural''"
proof -
  have a: "mapped_voice ''en-US-AvaMultilingualNeural'' = ''en-US-AvaMultilingualNeural''"
    by (simp add: mapped_voice_en)
  have b: "py_in ''Multilingual'' ''en-US-AvaMultilingualNeural''"
    by simp
  show ?thesis
    by (simp add: a b resolve_voice_unfold detected_lang_example overrides_ru
        MULTILINGUAL_VOICE_def)
qed

text \<open>
  Claim C6 as stated fails: \<^verbatim>\<open>en-US-EmmaMultilingualNeural\<close>, passed directly with a
  text detected as French, begins with \<^verbatim>\<open>en-\<close> and is not the multilingual voice, but
  it is exempt: it is not replaced by the multilingual voice.
\<close>

theorem resolve_voice_exempt_counterexample:
  "prefix ''en-'' ''en-US-EmmaMultilingualNeural''
   \<and> ''en-US-EmmaMultilingualNeural'' \<noteq> MULTILINGUAL_VOICE
   \<and> detected_lang (example_env (Some ''fr'') None Probe_ok None False) ''Bonjour le monde'' = ''fr''
   \<and> map_of LANGUAGE_VOICE_OVERRIDES ''fr'' = None
   \<and> resolve_voice (example_env (Some ''fr'') None Probe_ok None False)
        ''en-US-EmmaMultilingualNeural'' ''Bonjour le monde'' \<noteq> MULTILINGUAL_VOICE"
proof -
  have a: "mapped_voice ''en-US-EmmaMultilingualNeural'' = ''en-US-EmmaMultilingualNeural''"
    by (simp add: mapped_voice_en)
  have b: "py_in ''Multilingual'' ''en-US-EmmaMultilingualNeural''"
    by simp
  show ?thesis
    by (simp add: a b resolve_voice_unfold detected_lang_example overrides_fr
        MULTILINGUAL_VOICE_def)
qed

text \<open>
  \<^verbatim>\<open>en-GB-SoniaNeural\<close> passed directly and through its alias \<^verbatim>\<open>fable\<close>, and an exempt
  voice.
\<close>

theorem resolve_voice_any_source_witness:
  "prefix ''en-'' ''en-GB-SoniaNeural'' \<and> \<not> py_in ''Multilingual'' ''en-GB-SoniaNeural''
   \<and> resolve_voice (example_env (Some ''fr'') None Probe_ok None False)
        ''en-GB-SoniaNeural'' ''Bonjour le monde'' = MULTILINGUAL_VOICE
   \<and> resolve_voice (example_env (Some ''fr'') None Probe_ok None False)
        ''fable'' ''Bonjour le monde'' = MULTILINGUAL_VOICE
   \<and> py_in ''Multilingual'' ''en-US-EmmaMultilingualNeural''
   \<and> resolve_voice (example_env (Some ''fr'') None Probe_ok None False)
        ''en-US-EmmaMultilingualNeural'' ''Bonjour le monde'' = ''en-US-EmmaMultilingualNeural''"
proof -
  have a: "mapped_voice ''fable'' = ''en-GB-SoniaNeural''"
    by (simp add: mapped_voice_def dict_get_def voice_mapping_def)
  have b: "prefix ''en-'' ''en-GB-SoniaNeural''" "\<not> py_in ''Multilingual'' ''en-GB-SoniaNeural''"
    "py_in ''Multilingual'' ''en-US-EmmaMultilingualNeural''"
    by simp_all
  have c: "mapped_voice ''en-GB-SoniaNeural'' = ''en-GB-SoniaNeural''"
    "mapped_voice ''en-US-EmmaMultilingualNeural'' = ''en-US-EmmaMultilingualNeural''"
    by (simp_all add: mapped_voice_en)
  from a b c overrides_fr
    resolve_voice_any_source [of "example_env (Some ''fr'') None Probe_ok None False"
      "''en-GB-SoniaNeural''" "''Bonjour le monde''"]
    resolve_voice_any_source [of "example_env (Some ''fr'') None Probe_ok None False"
      "''fable''" "''Bonjour le monde''"]
    resolve_voice_any_source [of "example_env (Some ''fr'') None Probe_ok None False"
      "''en-US-EmmaMultilingualNeural''" "''Bonjour le monde''"]
  show ?thesis by (simp add: detected_lang_example)
qed




section \<open>The rate string\<close>



lemma digit_evals:
  "speed_to_rate (Finite 1) = Inr ''+0%''"
  "speed_to_rate (Finite (1 / 2)) = Inr ''-50%''"
  "speed_to_rate (Finite (255 / 256)) = Inr ''-0%''"
  "speed_to_rate (Finite (binary64 (6 / 5))) = Inr ''+20%''"
  by code_simp+












section \<open>The audio pipeline\<close>

lemma named_temporary_file_Inr:
  assumes "named_temporary_file sfx w = Inr (p, w1)"
  shows "p \<notin> files w" and "files w1 = insert p (files w)" and "trace w1 = trace w"
    and "suffix sfx p"
proof -
  from assms obtain n ns where
    d: "dropWhile (\<lambda>n. tmp_path n sfx \<in> files w) (names w) = n # ns"
    and p: "p = tmp_path n sfx"
    and w1: "w1 = w\<lparr>files := insert (tmp_path n sfx) (files w), names := ns\<rparr>"
    unfolding named_temporary_file_def by (auto split: list.splits)
  from d have "dropWhile (\<lambda>n. tmp_path n sfx \<in> files w) (names w) \<noteq> []"
    by simp
  from hd_dropWhile [OF this] d have "tmp_path n sfx \<notin> files w"
    by simp
  with p show "p \<notin> files w" by simp
  from p w1 show "files w1 = insert p (files w)" by simp
  from w1 show "trace w1 = trace w" by simp
  from p show "suffix sfx p" unfolding tmp_path_def
    by (simp add: suffix_def)
qed




lemma convert_run:
  assumes "fmt \<noteq> ''mp3''" and "is_ffmpeg_installed e"
    and "named_temporary_file (''.'' @ fmt) w = Inr (cp, w1)"
  shows "generate_audio_convert e p fmt w =
    (case subprocess_run e (ffmpeg_command p fmt cp) of
       Some exc \<Rightarrow>
         (Inl (RuntimeError (error_message e (ffmpeg_command p fmt cp) exc)),
          unlink p (unlink cp (record_call (Subprocess_run (ffmpeg_command p fmt cp)) w1)))
     | None \<Rightarrow>
         (Inr cp, unlink p (record_call (Subprocess_run (ffmpeg_command p fmt cp)) w1)))"
  using assms unfolding generate_audio_convert_def Let_def
  by simp

lemma generate_audio_alloc:
  assumes "named_temporary_file ''.mp3'' w = Inr (p, w1)"
  shows "generate_audio e text voice fmt speed w =
    (case communicate_save e text voice (speed_rate speed) of
       Some msg \<Rightarrow>
         (Inl (SynthesisError msg),
          record_call (Communicate_save text voice (speed_rate speed) p) w1)
     | None \<Rightarrow>
         generate_audio_convert e p fmt
           (record_call (Communicate_save text voice (speed_rate speed) p) w1))"
  using assms unfolding generate_audio_def Let_def
  by (simp only: sum.case prod.case)

lemma files_record_call: "files (record_call c w) = files w"
  by (simp add: record_call_def)


lemma files_unlink: "files (unlink p w) = files w - {p}"
  by (simp add: unlink_def)






lemma speed_rate_one: "speed_rate (Finite 1) = ''+0%''"
  by (simp add: speed_rate_def digit_evals(1) del: speed_to_rate.simps)








lemma example_alloc_mp3:
  "named_temporary_file ''.mp3'' example_world =
     Inr (''/tmp/tmpa1b2c3d4.mp3'',
          \<lparr>files = {''/tmp/tmpa1b2c3d4.mp3''}, names = [''e5f6g7h8''], trace = []\<rparr>)"
  by (simp add: named_temporary_file_def example_world_def tmp_path_def)

lemma example_installed:
  "is_ffmpeg_installed (example_env l s Probe_ok enc d)"
  "\<not> is_ffmpeg_installed (example_env l s Probe_file_not_found enc d)"
  "\<not> is_ffmpeg_installed (example_env l s Probe_called_process_error enc d)"
  by (simp_all add: is_ffmpeg_installed_def example_env_def)



lemma example_communicate:
  "communicate_save (example_env l s pr enc d) t v r = s"
  by (simp add: example_env_def)















lemma example_subprocess:
  "subprocess_run (example_env l s pr enc d) c = enc"
  "DETAILED_ERROR_LOGGING (example_env l s pr enc d) = d"
  by (simp_all add: example_env_def)






lemma error_message_detailed:
  "DETAILED_ERROR_LOGGING e \<Longrightarrow> suffix (exc_stderr exc) (error_message e cmd exc)"
  unfolding error_message_def suffix_def by simp

lemma error_message_brief:
  "\<not> DETAILED_ERROR_LOGGING e \<Longrightarrow>
   error_message e cmd exc = ''FFmpeg error during audio conversion: '' @ exc_str exc"
  unfolding error_message_def by simp

text \<open>
  Claim C5, amended. Take a target format other than \<^verbatim>\<open>mp3\<close>, the encoder installed, the
  converted file allocated and the native file on disk. When the encoder exits non-zero,
  the conversion step deletes the converted file and the native file and fails with a
  \<^verbatim>\<open>RuntimeError\<close>; its message ends with the encoder's diagnostic output when
  \<^verbatim>\<open>DETAILED_ERROR_LOGGING\<close> is set, and is \<^verbatim>\<open>str(e)\<close> behind a fixed prefix when it is not.
  When the encoder succeeds, the step deletes the native file and returns the path of the
  converted file, which is on disk and carries the suffix of the format.
\<close>

theorem convert_outcomes:
  assumes "fmt \<noteq> ''mp3''" and "is_ffmpeg_installed e"
    and "named_temporary_file (''.'' @ fmt) w = Inr (cp, w1)"
    and "p \<in> files w"
  shows "(\<forall>exc. subprocess_run e (ffmpeg_command p fmt cp) = Some exc \<longrightarrow>
        fst (generate_audio_convert e p fmt w)
          = Inl (RuntimeError (error_message e (ffmpeg_command p fmt cp) exc))
        \<and> p \<notin> files (snd (generate_audio_convert e p fmt w))
        \<and> cp \<notin> files (snd (generate_audio_convert e p fmt w))
        \<and> files (snd (generate_audio_convert e p fmt w)) = files w - {p}
        \<and> (DETAILED_ERROR_LOGGING e \<longrightarrow>
             suffix (exc_stderr exc) (error_message e (ffmpeg_command p fmt cp) exc))
        \<and> (\<not> DETAILED_ERROR_LOGGING e \<longrightarrow>
             error_message e (ffmpeg_command p fmt cp) exc
               = ''FFmpeg error during audio conversion: '' @ exc_str exc))
    \<and> (subprocess_run e (ffmpeg_command p fmt cp) = None \<longrightarrow>
        fst (generate_audio_convert e p fmt w) = Inr cp
        \<and> p \<notin> files (snd (generate_audio_convert e p fmt w))
        \<and> cp \<in> files (snd (generate_audio_convert e p fmt w))
        \<and> files (snd (generate_audio_convert e p fmt w)) = insert cp (files w - {p})
        \<and> suffix (''.'' @ fmt) cp)"
proof -
  note al = named_temporary_file_Inr [OF assms(3)]
  from al(1) assms(4) have ne: "p \<noteq> cp" by blast
  let ?cmd = "ffmpeg_command p fmt cp"
  let ?w2 = "record_call (Subprocess_run ?cmd) w1"
  have f2: "files ?w2 = insert cp (files w)"
    by (simp add: files_record_call al(2))
  have fail_files: "files (unlink p (unlink cp ?w2)) = files w - {p}"
    using al(1) by (simp add: files_unlink f2 insert_Diff_if)
  have ok_files: "files (unlink p ?w2) = insert cp (files w - {p})"
    using ne by (simp add: files_unlink f2 insert_Diff_if)
  show ?thesis
  proof (intro conjI allI impI)
    fix exc
    assume s: "subprocess_run e ?cmd = Some exc"
    with convert_run [OF assms(1-3), of p]
    have r: "generate_audio_convert e p fmt w =
        (Inl (RuntimeError (error_message e ?cmd exc)), unlink p (unlink cp ?w2))"
      by simp
    from r show "fst (generate_audio_convert e p fmt w)
          = Inl (RuntimeError (error_message e ?cmd exc))"
      by simp
    from r fail_files show "p \<notin> files (snd (generate_audio_convert e p fmt w))"
      by simp
    from r fail_files al(1) show "cp \<notin> files (snd (generate_audio_convert e p fmt w))"
      by simp
    from r fail_files show "files (snd (generate_audio_convert e p fmt w)) = files w - {p}"
      by simp
    {
      assume "DETAILED_ERROR_LOGGING e"
      then show "suffix (exc_stderr exc) (error_message e ?cmd exc)"
        by (rule error_message_detailed)
    }
    {
      assume "\<not> DETAILED_ERROR_LOGGING e"
      then show "error_message e ?cmd exc
          = ''FFmpeg error during audio conversion: '' @ exc_str exc"
        by (rule error_message_brief)
    }
  next
    assume s: "subprocess_run e ?cmd = None"
    with convert_run [OF assms(1-3), of p]
    have r: "generate_audio_convert e p fmt w = (Inr cp, unlink p ?w2)"
      by simp
    from r show "fst (generate_audio_convert e p fmt w) = Inr cp" by simp
    from r ok_files ne show "p \<notin> files (snd (generate_audio_convert e p fmt w))" by simp
    from r ok_files show "cp \<in> files (snd (generate_audio_convert e p fmt w))" by simp
    from r ok_files
    show "files (snd (generate_audio_convert e p fmt w)) = insert cp (files w - {p})" by simp
    from al(4) show "suffix (''.'' @ fmt) cp" .
  qed
qed


lemma example_alloc_wav:
  "named_temporary_file (''.'' @ ''wav'')
     \<lparr>files = {''/tmp/tmpa1b2c3d4.mp3''}, names = [''e5f6g7h8''], trace = []\<rparr> =
     Inr (''/tmp/tmpe5f6g7h8.wav'',
          \<lparr>files = {''/tmp/tmpe5f6g7h8.wav'', ''/tmp/tmpa1b2c3d4.mp3''}, names = [], trace = []\<rparr>)"
  by (simp add: named_temporary_file_def tmp_path_def)

text \<open>
  A \<^verbatim>\<open>wav\<close> conversion with detailed logging: once with a failing encoder, once with
  a successful one.
\<close>

theorem convert_outcomes_witness:
  "''wav'' \<noteq> ''mp3''
   \<and> is_ffmpeg_installed (example_env (Some ''en'') None Probe_ok (Some example_exc) True)
   \<and> ''/tmp/tmpa1b2c3d4.mp3''
        \<in> files \<lparr>files = {''/tmp/tmpa1b2c3d4.mp3''}, names = [''e5f6g7h8''], trace = []\<rparr>
   \<and> fst (generate_audio_convert (example_env (Some ''en'') None Probe_ok (Some example_exc) True)
        ''/tmp/tmpa1b2c3d4.mp3'' ''wav''
        \<lparr>files = {''/tmp/tmpa1b2c3d4.mp3''}, names = [''e5f6g7h8''], trace = []\<rparr>)
      = Inl (RuntimeError (error_message
          (example_env (Some ''en'') None Probe_ok (Some example_exc) True)
          (ffmpeg_command ''/tmp/tmpa1b2c3d4.mp3'' ''wav'' ''/tmp/tmpe5f6g7h8.wav'') example_exc))
   \<and> files (snd (generate_audio_convert
        (example_env (Some ''en'') None Probe_ok (Some example_exc) True)
        ''/tmp/tmpa1b2c3d4.mp3'' ''wav''
        \<lparr>files = {''/tmp/tmpa1b2c3d4.mp3''}, names = [''e5f6g7h8''], trace = []\<rparr>)) = {}
   \<and> suffix (exc_stderr example_exc) (error_message
          (example_env (Some ''en'') None Probe_ok (Some example_exc) True)
          (ffmpeg_command ''/tmp/tmpa1b2c3d4.mp3'' ''wav'' ''/tmp/tmpe5f6g7h8.wav'') example_exc)
   \<and> fst (generate_audio_convert (example_env (Some ''en'') None Probe_ok None True)
        ''/tmp/tmpa1b2c3d4.mp3'' ''wav''
        \<lparr>files = {''/tmp/tmpa1b2c3d4.mp3''}, names = [''e5f6g7h8''], trace = []\<rparr>)
      = Inr ''/tmp/tmpe5f6g7h8.wav''
   \<and> files (snd (generate_audio_convert (example_env (Some ''en'') None Probe_ok None True)
        ''/tmp/tmpa1b2c3d4.mp3'' ''wav''
        \<lparr>files = {''/tmp/tmpa1b2c3d4.mp3''}, names = [''e5f6g7h8''], trace = []\<rparr>))
      = {''/tmp/tmpe5f6g7h8.wav''}"
proof -
  let ?w = "\<lparr>files = {''/tmp/tmpa1b2c3d4.mp3''}, names = [''e5f6g7h8''], trace = []\<rparr>"
  have a: "''wav'' \<noteq> ''mp3''" by simp
  have m: "''/tmp/tmpa1b2c3d4.mp3'' \<in> files ?w" by simp
  have d: "files ?w - {''/tmp/tmpa1b2c3d4.mp3''} = {}" by simp
  from convert_outcomes [OF a example_installed(1) example_alloc_wav m,
      of "Some ''en''" None "Some example_exc" True]
    convert_outcomes [OF a example_installed(1) example_alloc_wav m,
      of "Some ''en''" None None True]
    a m d example_installed(1)
  show ?thesis
    by (simp add: example_subprocess)
qed

text \<open>
  Claim C5 as stated fails when \<^verbatim>\<open>DETAILED_ERROR_LOGGING\<close> is off: the encoder exits
  non-zero, and the message of the error does not contain the diagnostic output of the
  encoder.
\<close>

theorem convert_error_without_stderr_counterexample:
  "\<not> DETAILED_ERROR_LOGGING (example_env (Some ''en'') None Probe_ok (Some example_exc) False)
   \<and> subprocess_run (example_env (Some ''en'') None Probe_ok (Some example_exc) False)
        (ffmpeg_command ''/tmp/tmpa1b2c3d4.mp3'' ''wav'' ''/tmp/tmpe5f6g7h8.wav'')
      = Some example_exc
   \<and> exc_stderr example_exc = ''/tmp/tmpa1b2c3d4.mp3: Invalid data found when processing input''
   \<and> fst (generate_audio_convert (example_env (Some ''en'') None Probe_ok (Some example_exc) False)
        ''/tmp/tmpa1b2c3d4.mp3'' ''wav''
        \<lparr>files = {''/tmp/tmpa1b2c3d4.mp3''}, names = [''e5f6g7h8''], trace = []\<rparr>)
      = Inl (RuntimeError (''FFmpeg error during audio conversion: '' @ exc_str example_exc))
   \<and> \<not> py_in ''/tmp/tmpa1b2c3d4.mp3: Invalid data found when processing input''
         (''FFmpeg error during audio conversion: '' @ exc_str example_exc)"
proof -
  have a: "''wav'' \<noteq> ''mp3''" by simp
  have r: "fst (generate_audio_convert
        (example_env (Some ''en'') None Probe_ok (Some example_exc) False)
        ''/tmp/tmpa1b2c3d4.mp3'' ''wav''
        \<lparr>files = {''/tmp/tmpa1b2c3d4.mp3''}, names = [''e5f6g7h8''], trace = []\<rparr>)
      = Inl (RuntimeError (''FFmpeg error during audio conversion: '' @ exc_str example_exc))"
    by (simp add: convert_run [OF a example_installed(1) example_alloc_wav] example_subprocess
        error_message_brief)
  have n: "\<not> py_in ''/tmp/tmpa1b2c3d4.mp3: Invalid data found when processing input''
         (''FFmpeg error during audio conversion: '' @ exc_str example_exc)"
    by (simp add: example_exc_def)
  have s: "exc_stderr example_exc = ''/tmp/tmpa1b2c3d4.mp3: Invalid data found when processing input''"
    by (simp add: example_exc_def)
  from r n s show ?thesis
    by (simp add: example_subprocess)
qed

text \<open>
  Claim C1 fails on the code. The request \<^verbatim>\<open>generate_speech("Hello", "alloy", "mp3", 1.0)\<close>
  on an empty disk, with a synthesis call that raises: \<^verbatim>\<open>generate_speech\<close> raises, and
  the native temporary file created at line 42 is still on disk. Only the handler of the
  encoder's failure (lines 94 and 95) unlinks it.
\<close>

theorem generate_speech_synthesis_failure_leaves_file:
  "generate_speech (example_env (Some ''en'') (Some ''NoAudioReceived'') Probe_ok None False)
      ''Hello'' ''alloy'' ''mp3'' (Finite 1) example_world
    = (Inl (SynthesisError ''NoAudioReceived''),
       \<lparr>files = {''/tmp/tmpa1b2c3d4.mp3''}, names = [''e5f6g7h8''],
        trace = [Communicate_save ''Hello'' ''en-US-AvaNeural'' ''+0%'' ''/tmp/tmpa1b2c3d4.mp3'']\<rparr>)
   \<and> files example_world = {}"
proof -
  have v: "resolve_voice (example_env (Some ''en'') (Some ''NoAudioReceived'') Probe_ok None False)
      ''alloy'' ''Hello'' = ''en-US-AvaNeural''"
    by (simp add: resolve_voice_alloy detected_lang_example LANGUAGE_VOICE_OVERRIDES_def)
  have g: "generate_speech (example_env (Some ''en'') (Some ''NoAudioReceived'') Probe_ok None False)
      ''Hello'' ''alloy'' ''mp3'' (Finite 1) example_world
    = (Inl (SynthesisError ''NoAudioReceived''),
       \<lparr>files = {''/tmp/tmpa1b2c3d4.mp3''}, names = [''e5f6g7h8''],
        trace = [Communicate_save ''Hello'' ''en-US-AvaNeural'' ''+0%'' ''/tmp/tmpa1b2c3d4.mp3'']\<rparr>)"
    unfolding generate_speech_def v
    by (simp add: generate_audio_alloc [OF example_alloc_mp3] example_communicate speed_rate_one
        record_call_def)
  have f: "files example_world = {}"
    by (simp add: example_world_def)
  from g f show ?thesis by blast
qed



end
